theory Spec2Isabelle
  imports Main "HOL-Library.Sublist"
begin

section \<open>Go values\<close>

text \<open>
  A Go \<open>string\<close> and a \<open>[]byte\<close> are byte sequences; both are modelled as
  \<open>string\<close> (a list of 8-bit characters), so \<open>len\<close> is \<open>length\<close> and the
  conversion \<open>[]byte(s)\<close> is the identity.

  A Go function of this repository can end in four ways: it returns a value, it returns
  an \<open>error\<close> (kept as the text \<open>err.Error()\<close> gives, which is all the code ever reads
  of an error), it ends the process through \<open>log.Fatalf\<close>, or it panics at run time
  (a nil dereference). The last three are the constructors of \<open>failure\<close>.
\<close>

datatype failure =
    Err string
  | Fatal string
  | Panic string

type_synonym 'a result = "failure + 'a"

definition nilDereference :: string where
  "nilDereference = ''runtime error: invalid memory address or nil pointer dereference''"

text \<open>\<open>fmt.Errorf(msg + "%w", err)\<close>: a returned error gets the text in front; a process exit
  or a panic is not a value the caller sees, and passes through.\<close>

definition wrapError :: "string \<Rightarrow> failure \<Rightarrow> failure" where
  "wrapError msg f = (case f of Err e \<Rightarrow> Err (msg @ e) | Fatal m \<Rightarrow> Fatal m | Panic m \<Rightarrow> Panic m)"

subsection \<open>Package strings and fmt\<close>

definition Contains :: "string \<Rightarrow> string \<Rightarrow> bool" where
  "Contains s substr = sublist substr s"

definition Repeat :: "string \<Rightarrow> nat \<Rightarrow> string" where
  "Repeat s count = concat (replicate count s)"

text \<open>\<open>strings.Split(s, sep)\<close> for a separator of one byte, the only use the code makes
  of it (\<open>"="\<close>): the pieces between the separators, empty pieces kept.\<close>

fun Split :: "string \<Rightarrow> char \<Rightarrow> string list" where
  "Split [] sep = [[]]"
| "Split (c # cs) sep =
     (if c = sep then [] # Split cs sep
      else (case Split cs sep of [] \<Rightarrow> [[c]] | p # ps \<Rightarrow> (c # p) # ps))"

text \<open>The verb \<open>%d\<close> of \<open>fmt.Sprintf\<close> on a non-negative integer.\<close>

definition digitChar :: "nat \<Rightarrow> char" where
  "digitChar d = ''0123456789'' ! d"

fun formatNat :: "nat \<Rightarrow> string" where
  "formatNat n = (if n < 10 then [digitChar n] else formatNat (n div 10) @ [digitChar (n mod 10)])"

declare formatNat.simps [simp del]

section \<open>internal/storage: constants and data\<close>

definition ContainerNamePattern :: string where
  "ContainerNamePattern = ''amazin-object-storage-node-''"

definition MinioAccessKeyEnv :: string where
  "MinioAccessKeyEnv = ''MINIO_ACCESS_KEY''"

definition MinioSecretKeyEnv :: string where
  "MinioSecretKeyEnv = ''MINIO_SECRET_KEY''"

definition MinioApiPort :: nat where
  "MinioApiPort = 9000"

definition MinioKeyNotExistErrString :: string where
  "MinioKeyNotExistErrString = ''The specified key does not exist.''"

record Object =
  ID :: string
  ContentType :: string
  Content :: string

record Node =
  ID :: string
  Name :: string
  Endpoint :: string
  AccessKey :: string
  SecretKey :: string

definition maskSecret :: "string \<Rightarrow> string" where
  "maskSecret secret = Repeat ''X'' (length secret)"

definition Node_String :: "Node \<Rightarrow> string" where
  "Node_String n = Node.ID n @ ''#'' @ Name n"

definition Node_Debug :: "Node \<Rightarrow> string" where
  "Node_Debug n =
     Node.ID n @ ''#'' @ Name n @ ''#'' @ Endpoint n @ ''#'' @ AccessKey n @ ''#'' @ maskSecret (SecretKey n)"

section \<open>The container runtime, as the Docker client reports it\<close>

text \<open>
  The Docker client is a third-party library. A client value is what its two queries
  answer: \<open>ContainerList\<close> (the running containers, or the error of the query) and
  \<open>ContainerInspect\<close> (for a container id, the environment \<open>Config.Env\<close> of the
  container, or the error of the query). Of a listed container the code reads the id, the
  names and the network settings; the latter is a pointer (nil is \<open>None\<close>) to a map from
  network names to endpoint settings (a nil map is \<open>None\<close>). Go ranges over a map in an
  order of the runtime's choosing: the map is an association list, in the order the loop
  visits it.
\<close>

record EndpointSettings =
  IPAddress :: string

record SummaryNetworkSettings =
  Networks :: "(string \<times> EndpointSettings) list option"

record Container =
  ID :: string
  Names :: "string list"
  NetworkSettings :: "SummaryNetworkSettings option"

record DockerClient =
  ContainerList :: "string + Container list"
  ContainerInspect :: "string \<Rightarrow> string + string list"

section \<open>The object store behind one endpoint\<close>

text \<open>
  Modelled from the spec: the S3-compatible server and the minio-go client that reaches it
  are external collaborators, not in the sources. A backend holds buckets of objects; an
  object is stored under its id with its content type and content, verbatim, and a later
  write under the same id replaces it. Each kind of request can fail with an error of
  the environment's choosing (connectivity, time-out, refusal): the \<open>fail\<close> fields hold
  that error, \<open>None\<close> when the request is answered. An answered \<open>Stat\<close> or read of an id
  that is absent fails with the text \<open>MinioKeyNotExistErrString\<close>, the one the adapter
  looks for. \<open>GetObject\<close> only opens a handle; the server is asked at \<open>Stat\<close> and at the
  read.
\<close>

record backend =
  buckets :: "string \<rightharpoonup> (string \<rightharpoonup> string \<times> string)"
  failBucketExists :: "string option"
  failMakeBucket :: "string option"
  failPutObject :: "string option"
  failGetObject :: "string option"
  failStat :: "string option"
  failRead :: "string option"

type_synonym world = "string \<Rightarrow> backend"

definition noSuchBucket :: string where
  "noSuchBucket = ''The specified bucket does not exist''"

definition bucketAlreadyOwned :: string where
  "bucketAlreadyOwned = ''Your previous request to create the named bucket succeeded and you already own it.''"

definition client_BucketExists :: "backend \<Rightarrow> string \<Rightarrow> string + bool" where
  "client_BucketExists b bucket =
     (case failBucketExists b of
        Some e \<Rightarrow> Inl e
      | None \<Rightarrow> Inr (buckets b bucket \<noteq> None))"

definition client_MakeBucket :: "backend \<Rightarrow> string \<Rightarrow> string + backend" where
  "client_MakeBucket b bucket =
     (case failMakeBucket b of
        Some e \<Rightarrow> Inl e
      | None \<Rightarrow>
          (case buckets b bucket of
             Some objs \<Rightarrow> Inl bucketAlreadyOwned
           | None \<Rightarrow> Inr (b\<lparr>buckets := (buckets b)(bucket \<mapsto> Map.empty)\<rparr>)))"

definition client_PutObject ::
    "backend \<Rightarrow> string \<Rightarrow> string \<Rightarrow> string \<Rightarrow> string \<Rightarrow> string + backend" where
  "client_PutObject b bucket objectName content contentType =
     (case failPutObject b of
        Some e \<Rightarrow> Inl e
      | None \<Rightarrow>
          (case buckets b bucket of
             None \<Rightarrow> Inl noSuchBucket
           | Some objs \<Rightarrow>
               Inr (b\<lparr>buckets := (buckets b)(bucket \<mapsto> objs(objectName \<mapsto> (contentType, content)))\<rparr>)))"

text \<open>The handle \<open>GetObject\<close> returns names the bucket and the object.\<close>

definition client_GetObject :: "backend \<Rightarrow> string \<Rightarrow> string \<Rightarrow> string + (string \<times> string)" where
  "client_GetObject b bucket objectName =
     (case failGetObject b of
        Some e \<Rightarrow> Inl e
      | None \<Rightarrow> Inr (bucket, objectName))"

definition serverLookup :: "backend \<Rightarrow> string \<times> string \<Rightarrow> string + (string \<times> string)" where
  "serverLookup b mObj =
     (case buckets b (fst mObj) of
        None \<Rightarrow> Inl noSuchBucket
      | Some objs \<Rightarrow>
          (case objs (snd mObj) of
             None \<Rightarrow> Inl MinioKeyNotExistErrString
           | Some stored \<Rightarrow> Inr stored))"

text \<open>\<open>mObj.Stat()\<close>: of the object's info the code reads the content type.\<close>

definition client_Stat :: "backend \<Rightarrow> string \<times> string \<Rightarrow> string + string" where
  "client_Stat b mObj =
     (case failStat b of
        Some e \<Rightarrow> Inl e
      | None \<Rightarrow> (case serverLookup b mObj of Inl e \<Rightarrow> Inl e | Inr stored \<Rightarrow> Inr (fst stored)))"

text \<open>\<open>io.ReadAll(mObj)\<close>.\<close>

definition client_ReadAll :: "backend \<Rightarrow> string \<times> string \<Rightarrow> string + string" where
  "client_ReadAll b mObj =
     (case failRead b of
        Some e \<Rightarrow> Inl e
      | None \<Rightarrow> (case serverLookup b mObj of Inl e \<Rightarrow> Inl e | Inr stored \<Rightarrow> Inr (snd stored)))"

section \<open>MinioStorage, the adapter of one backend\<close>

record MinioConfig =
  Endpoint :: string
  AccessKey :: string
  SecretKey :: string
  BucketName :: string

text \<open>The \<open>*minio.Client\<close> of an adapter is the endpoint it connects to and its static
  credentials.\<close>

record MinioClient =
  endpointURL :: string
  accessKeyID :: string
  secretAccessKey :: string

record MinioStorage =
  client :: MinioClient
  endpoint :: string
  bucketName :: string

text \<open>\<open>minio.New\<close> checks the endpoint it is given; which endpoints it refuses, and with
  which error, is the library's business and a parameter here (\<open>None\<close>: accepted).\<close>

type_synonym minioNew = "string \<Rightarrow> string option"

definition NewMinioStorage :: "minioNew \<Rightarrow> MinioConfig \<Rightarrow> MinioStorage result" where
  "NewMinioStorage minio_New cfg =
     (case minio_New (MinioConfig.Endpoint cfg) of
        Some err \<Rightarrow> Inl (Err (''unable to create minio storage instance: '' @ err))
      | None \<Rightarrow>
          Inr \<lparr>client = \<lparr>endpointURL = MinioConfig.Endpoint cfg,
                          accessKeyID = MinioConfig.AccessKey cfg,
                          secretAccessKey = MinioConfig.SecretKey cfg\<rparr>,
               endpoint = MinioConfig.Endpoint cfg,
               bucketName = BucketName cfg\<rparr>)"

definition server :: "MinioStorage \<Rightarrow> string" where
  "server s = endpointURL (MinioStorage.client s)"

definition MinioStorage_Init :: "MinioStorage \<Rightarrow> world \<Rightarrow> unit result \<times> world" where
  "MinioStorage_Init s w =
     (case client_BucketExists (w (server s)) (MinioStorage.bucketName s) of
        Inl err \<Rightarrow>
          (Inl (Err (''error init bucket ('' @ endpoint s @ ''): unable to check bucket: '' @ err)), w)
      | Inr exists \<Rightarrow>
          if exists then (Inr (), w)
          else
            (case client_MakeBucket (w (server s)) (MinioStorage.bucketName s) of
               Inl err \<Rightarrow>
                 (Inl (Err (''error init bucket ('' @ endpoint s @ ''): unable to create bucket: '' @ err)), w)
             | Inr b' \<Rightarrow> (Inr (), w(server s := b'))))"

definition keyDoesNotExist :: "string \<Rightarrow> bool" where
  "keyDoesNotExist err = Contains err MinioKeyNotExistErrString"

definition handleKeyDoesNotExistError ::
    "MinioStorage \<Rightarrow> string \<Rightarrow> string \<Rightarrow> string \<Rightarrow> Object option result" where
  "handleKeyDoesNotExistError s err pre oid =
     (if keyDoesNotExist err then Inr None
      else Inl (Err (pre @ '' ('' @ endpoint s @ '' | '' @ oid @ ''): '' @ err)))"

definition MinioStorage_Get :: "MinioStorage \<Rightarrow> world \<Rightarrow> string \<Rightarrow> Object option result" where
  "MinioStorage_Get s w oid =
     (case client_GetObject (w (server s)) (MinioStorage.bucketName s) oid of
        Inl err \<Rightarrow> handleKeyDoesNotExistError s err ''error get object'' oid
      | Inr mObj \<Rightarrow>
          (case client_Stat (w (server s)) mObj of
             Inl err \<Rightarrow> handleKeyDoesNotExistError s err ''error get object: unable to read stat'' oid
           | Inr contentType \<Rightarrow>
               (case client_ReadAll (w (server s)) mObj of
                  Inl err \<Rightarrow>
                    Inl (Err (''error get object ('' @ endpoint s @ '' | '' @ oid @ ''): unable to read body: '' @ err))
                | Inr body \<Rightarrow>
                    Inr (Some \<lparr>Object.ID = oid, ContentType = contentType, Content = body\<rparr>))))"

text \<open>The object is a pointer: \<open>None\<close> is nil, and the first thing \<open>Put\<close> does is read
  \<open>object.ID\<close>.\<close>

definition MinioStorage_Put :: "MinioStorage \<Rightarrow> world \<Rightarrow> Object option \<Rightarrow> unit result \<times> world" where
  "MinioStorage_Put s w object =
     (case object of
        None \<Rightarrow> (Inl (Panic nilDereference), w)
      | Some obj \<Rightarrow>
          (case client_PutObject (w (server s)) (MinioStorage.bucketName s) (Object.ID obj)
                  (Content obj) (ContentType obj) of
             Inl err \<Rightarrow>
               (Inl (Err (''error put object ('' @ endpoint s @ '' | '' @ Object.ID obj @ ''): '' @ err)), w)
           | Inr b' \<Rightarrow> (Inr (), w(server s := b'))))"

section \<open>The hash ring\<close>

text \<open>
  Modelled from the spec: the hash ring is the third-party library
  \<open>github.com/buraksezer/consistent\<close>, not in the sources. The spec's ring holds one
  member per token \<open>id#name\<close> (adding a member whose token is present changes nothing),
  and \<open>locate\<close> returns a member present in the ring, the same one for the same key and
  the same ring, and fails on a ring with no members. Which member a key goes to (the
  hash of the key, the walk along the ring, the load bound) is the library's business and
  a parameter here: a \<open>placement\<close> gives, for a ring and a key, the position among the
  members. The Go signature is \<open>LocateKey(key []byte) Member\<close>: with no error to
  return, the failure on an empty ring is the nil member, \<open>None\<close>.
\<close>

record Consistent =
  members :: "Node list"
  PartitionCount :: nat
  ReplicationFactor :: nat
  LoadPercent :: nat

type_synonym placement = "Consistent \<Rightarrow> string \<Rightarrow> nat"

definition consistent_New :: "nat \<Rightarrow> nat \<Rightarrow> nat \<Rightarrow> Consistent" where
  "consistent_New partitionCount replicationFactor loadPercent =
     \<lparr>members = [], PartitionCount = partitionCount,
      ReplicationFactor = replicationFactor, LoadPercent = loadPercent\<rparr>"

definition consistent_Add :: "Consistent \<Rightarrow> Node \<Rightarrow> Consistent" where
  "consistent_Add c member =
     (if Node_String member \<in> set (map Node_String (members c)) then c
      else c\<lparr>members := members c @ [member]\<rparr>)"

definition LocateKey :: "placement \<Rightarrow> Consistent \<Rightarrow> string \<Rightarrow> Node option" where
  "LocateKey place c key =
     (if members c = [] then None
      else Some (members c ! (place c key mod length (members c))))"

section \<open>DistributedStorage, the router\<close>

text \<open>The Docker client and the ring are pointers: \<open>None\<close> is nil. A nil registry map
  reads as the empty map.\<close>

record DistributedStorage =
  client :: "DockerClient option"
  bucketName :: string
  circle :: "Consistent option"
  availableStorages :: "string \<rightharpoonup> MinioStorage"

definition NewDistributedStorage :: "DockerClient option \<Rightarrow> string \<Rightarrow> DistributedStorage" where
  "NewDistributedStorage cli bucket =
     \<lparr>client = cli, bucketName = bucket, circle = None, availableStorages = Map.empty\<rparr>"

subsection \<open>getAvailableStorageNodes\<close>

text \<open>The inner loop over \<open>container.NetworkSettings.Networks\<close>: the first address that
  is not empty, in the order the loop visits the map.\<close>

fun firstIPAddress :: "(string \<times> EndpointSettings) list \<Rightarrow> string" where
  "firstIPAddress [] = ''''"
| "firstIPAddress (n # ns) =
     (if IPAddress (snd n) \<noteq> '''' then IPAddress (snd n) else firstIPAddress ns)"

definition resolveAddr :: "Container \<Rightarrow> string" where
  "resolveAddr container =
     (case NetworkSettings container of
        None \<Rightarrow> ''''
      | Some settings \<Rightarrow>
          (case Networks settings of None \<Rightarrow> '''' | Some nets \<Rightarrow> firstIPAddress nets))"

text \<open>The loop that fills \<open>containerEnv\<close> from \<open>inspectData.Config.Env\<close>.\<close>

fun parseEnv :: "(string \<rightharpoonup> string) \<Rightarrow> string list \<Rightarrow> (string \<rightharpoonup> string)" where
  "parseEnv containerEnv [] = containerEnv"
| "parseEnv containerEnv (env # envs) =
     (let splitted = Split env (CHR ''='')
      in if length splitted > 1
         then parseEnv (containerEnv(splitted ! 0 \<mapsto> splitted ! 1)) envs
         else parseEnv containerEnv envs)"

text \<open>Reading a Go map at a key it does not hold gives the empty string.\<close>

definition envValue :: "(string \<rightharpoonup> string) \<Rightarrow> string \<Rightarrow> string" where
  "envValue containerEnv k = (case containerEnv k of None \<Rightarrow> '''' | Some v \<Rightarrow> v)"

definition containerName :: "Container \<Rightarrow> string" where
  "containerName container = (case Names container of [] \<Rightarrow> '''' | n # ns \<Rightarrow> n)"

text \<open>
  The body of the loop over the listed containers: \<open>Inr None\<close> is \<open>continue\<close>,
  \<open>Inr (Some node)\<close> the node the iteration appends, \<open>Inl\<close> the way the iteration
  leaves the function. \<open>log.Fatalf\<close> ends the process: the \<open>continue\<close> that follows
  it in the source is never reached. The message prints the node with \<open>%v\<close>, which
  calls its \<open>String\<close> method.
\<close>

definition storageNode :: "DockerClient \<Rightarrow> Container \<Rightarrow> Node option result" where
  "storageNode cli container =
     (if Container.ID container = '''' \<or> NetworkSettings container = None then Inr None
      else if \<not> Contains (containerName container) ContainerNamePattern then Inr None
      else if resolveAddr container = '''' then
        Inl (Fatal (''unable to resolve ip address of storage node: '' @
               Node_String \<lparr>Node.ID = Container.ID container, Name = containerName container,
                            Endpoint = '''', AccessKey = '''', SecretKey = ''''\<rparr>))
      else
        (case ContainerInspect cli (Container.ID container) of
           Inl err \<Rightarrow>
             Inl (Err (''unable to inspect container '' @ Container.ID container @ '': '' @ err))
         | Inr env \<Rightarrow>
             Inr (Some \<lparr>Node.ID = Container.ID container,
                        Name = containerName container,
                        Endpoint = resolveAddr container @ '':'' @ formatNat MinioApiPort,
                        AccessKey = envValue (parseEnv Map.empty env) MinioAccessKeyEnv,
                        SecretKey = envValue (parseEnv Map.empty env) MinioSecretKeyEnv\<rparr>)))"

fun storageNodes :: "DockerClient \<Rightarrow> Node list \<Rightarrow> Container list \<Rightarrow> Node list result" where
  "storageNodes cli acc [] = Inr acc"
| "storageNodes cli acc (container # containers) =
     (case storageNode cli container of
        Inl f \<Rightarrow> Inl f
      | Inr None \<Rightarrow> storageNodes cli acc containers
      | Inr (Some node) \<Rightarrow> storageNodes cli (acc @ [node]) containers)"

definition getAvailableStorageNodes :: "DistributedStorage \<Rightarrow> Node list result" where
  "getAvailableStorageNodes s =
     (case client s of
        None \<Rightarrow> Inl (Panic nilDereference)
      | Some cli \<Rightarrow>
          (case ContainerList cli of
             Inl err \<Rightarrow> Inl (Err (''unable to list containers: '' @ err))
           | Inr containers \<Rightarrow> storageNodes cli [] containers))"

subsection \<open>Init\<close>

definition initStorageNode ::
    "minioNew \<Rightarrow> DistributedStorage \<Rightarrow> world \<Rightarrow> Node \<Rightarrow> MinioStorage result \<times> world" where
  "initStorageNode minio_New s w node =
     (case NewMinioStorage minio_New
             \<lparr>Endpoint = Node.Endpoint node, AccessKey = Node.AccessKey node,
              SecretKey = Node.SecretKey node, BucketName = bucketName s\<rparr> of
        Inl f \<Rightarrow> (Inl (wrapError (''create Minio storage for node '' @ Node_Debug node @ '': '') f), w)
      | Inr storage \<Rightarrow>
          (case MinioStorage_Init storage w of
             (Inl f, w') \<Rightarrow>
               (Inl (wrapError (''initialize storage for node '' @ Node_Debug node @ '': '') f), w')
           | (Inr u, w') \<Rightarrow> (Inr storage, w')))"

text \<open>The loop of \<open>initStorages\<close>: it returns at the first node that fails, with the
  registry as filled so far.\<close>

fun initStoragesLoop ::
    "minioNew \<Rightarrow> DistributedStorage \<Rightarrow> world \<Rightarrow> Node list \<Rightarrow> unit result \<times> DistributedStorage \<times> world" where
  "initStoragesLoop minio_New s w [] = (Inr (), s, w)"
| "initStoragesLoop minio_New s w (node # nodes) =
     (case initStorageNode minio_New s w node of
        (Inl f, w') \<Rightarrow> (Inl f, s, w')
      | (Inr storage, w') \<Rightarrow>
          initStoragesLoop minio_New
            (s\<lparr>availableStorages := (availableStorages s)(Node_String node \<mapsto> storage)\<rparr>) w' nodes)"

definition initStorages ::
    "minioNew \<Rightarrow> DistributedStorage \<Rightarrow> world \<Rightarrow> Node list \<Rightarrow> unit result \<times> DistributedStorage \<times> world" where
  "initStorages minio_New s w nodes =
     initStoragesLoop minio_New (s\<lparr>availableStorages := Map.empty\<rparr>) w nodes"

definition initHashCircle :: "DistributedStorage \<Rightarrow> Node list \<Rightarrow> DistributedStorage" where
  "initHashCircle s nodes =
     s\<lparr>circle := Some (foldl consistent_Add (consistent_New (length nodes) 0 125) nodes)\<rparr>"

definition DistributedStorage_Init ::
    "minioNew \<Rightarrow> DistributedStorage \<Rightarrow> world \<Rightarrow> unit result \<times> DistributedStorage \<times> world" where
  "DistributedStorage_Init minio_New s w =
     (case getAvailableStorageNodes s of
        Inl f \<Rightarrow> (Inl (wrapError ''retrieve storage nodes: '' f), s, w)
      | Inr nodes \<Rightarrow>
          (case initStorages minio_New s w nodes of
             (Inl f, s', w') \<Rightarrow> (Inl f, s', w')
           | (Inr u, s', w') \<Rightarrow> (Inr (), initHashCircle s' nodes, w')))"

subsection \<open>Put and Get\<close>

text \<open>\<open>s.circle.LocateKey(key).String()\<close>: on a nil ring, and on the nil member an empty
  ring gives, the call dereferences nil and panics.\<close>

definition locateToken :: "placement \<Rightarrow> DistributedStorage \<Rightarrow> string \<Rightarrow> string result" where
  "locateToken place s key =
     (case circle s of
        None \<Rightarrow> Inl (Panic nilDereference)
      | Some c \<Rightarrow>
          (case LocateKey place c key of
             None \<Rightarrow> Inl (Panic nilDereference)
           | Some member \<Rightarrow> Inr (Node_String member)))"

definition DistributedStorage_Put ::
    "placement \<Rightarrow> DistributedStorage \<Rightarrow> world \<Rightarrow> Object option \<Rightarrow> unit result \<times> world" where
  "DistributedStorage_Put place s w object =
     (case object of
        None \<Rightarrow> (Inl (Err ''object is empty''), w)
      | Some obj \<Rightarrow>
          if Object.ID obj = '''' then (Inl (Err ''object is empty''), w)
          else
            (case locateToken place s (Object.ID obj) of
               Inl f \<Rightarrow> (Inl f, w)
             | Inr key \<Rightarrow>
                 (case availableStorages s key of
                    None \<Rightarrow>
                      (Inl (Err (''failed to push data: storage node not available ('' @ key @ '')'')), w)
                  | Some storage \<Rightarrow>
                      (case MinioStorage_Put storage w object of
                         (Inl f, w') \<Rightarrow>
                           (Inl (wrapError (''failed to put data using node ('' @ key @ ''): '') f), w')
                       | (Inr u, w') \<Rightarrow> (Inr (), w')))))"

definition DistributedStorage_Get ::
    "placement \<Rightarrow> DistributedStorage \<Rightarrow> world \<Rightarrow> string \<Rightarrow> Object option result" where
  "DistributedStorage_Get place s w oid =
     (case locateToken place s oid of
        Inl f \<Rightarrow> Inl f
      | Inr key \<Rightarrow>
          (case availableStorages s key of
             None \<Rightarrow> Inl (Err (''failed to get data: storage node not available ('' @ key @ '')''))
           | Some storage \<Rightarrow>
               (case MinioStorage_Get storage w oid of
                  Inl f \<Rightarrow> Inl (wrapError (''failed to get data using node ('' @ key @ ''): '') f)
                | Inr object \<Rightarrow> Inr object)))"

section \<open>cmd/main.go\<close>

definition EnvBucketName :: string where
  "EnvBucketName = ''BUCKET_NAME''"

definition getEnvWithFallback :: "(string \<rightharpoonup> string) \<Rightarrow> string \<Rightarrow> string \<Rightarrow> string" where
  "getEnvWithFallback environ key fallback =
     (case environ key of None \<Rightarrow> fallback | Some v \<Rightarrow> v)"

text \<open>
  What \<open>main\<close> does up to the start of the gateway server. \<open>checkError\<close> only logs, so
  a Docker client that could not be made (\<open>Inl\<close>) leaves \<open>cli\<close> nil and \<open>main\<close> goes
  on. The call \<open>storage.Init(ctx)\<close> is a statement: the error it returns is dropped. The
  process ends before the server starts only if \<open>Init\<close> itself ends it (\<open>log.Fatalf\<close>
  or a panic); otherwise \<open>gateway.NewServer(storage)\<close> is built over the router as
  \<open>Init\<close> left it and \<open>server.Start(":3000")\<close> is launched.
\<close>

datatype startup =
    Terminated failure
  | GatewayStarted DistributedStorage world

definition main ::
    "minioNew \<Rightarrow> (string + DockerClient) \<Rightarrow> (string \<rightharpoonup> string) \<Rightarrow> world \<Rightarrow> startup" where
  "main minio_New newClient environ w =
     (let cli = (case newClient of Inl err \<Rightarrow> None | Inr c \<Rightarrow> Some c);
          storage = NewDistributedStorage cli (getEnvWithFallback environ EnvBucketName ''default'')
      in case DistributedStorage_Init minio_New storage w of
           (Inl (Fatal m), s', w') \<Rightarrow> Terminated (Fatal m)
         | (Inl (Panic m), s', w') \<Rightarrow> Terminated (Panic m)
         | (Inl (Err e), s', w') \<Rightarrow> GatewayStarted s' w'
         | (Inr u, s', w') \<Rightarrow> GatewayStarted s' w')"

section \<open>Specification vocabulary\<close>

text \<open>The adapter a key is routed to: the registry entry of the member the ring locates,
  when there is one. \<open>Put\<close> and \<open>Get\<close> both resolve their adapter this way.\<close>

definition route :: "placement \<Rightarrow> DistributedStorage \<Rightarrow> string \<Rightarrow> MinioStorage option" where
  "route place s key =
     (case locateToken place s key of Inl f \<Rightarrow> None | Inr token \<Rightarrow> availableStorages s token)"

text \<open>A backend answers reads when none of the three requests of \<open>Get\<close> is made to fail
  by the environment.\<close>

definition answersReads :: "backend \<Rightarrow> bool" where
  "answersReads b = (failGetObject b = None \<and> failStat b = None \<and> failRead b = None)"

text \<open>The member tokens placed on a ring.\<close>

definition ringTokens :: "Consistent \<Rightarrow> string set" where
  "ringTokens c = set (map Node_String (members c))"

text \<open>
  The words of the spec on node discovery, to compare \<open>getAvailableStorageNodes\<close> with:
  a candidate is a listed container with an id and network settings whose first name
  carries the naming convention; the node of a candidate has the container's id and first
  name, its first non-empty address with the API port as endpoint, and the credentials of
  the container's own environment.
\<close>

definition candidate :: "Container \<Rightarrow> bool" where
  "candidate container =
     (Container.ID container \<noteq> '''' \<and> NetworkSettings container \<noteq> None \<and>
      Contains (containerName container) ContainerNamePattern)"

definition inspected :: "DockerClient \<Rightarrow> Container \<Rightarrow> bool" where
  "inspected cli container =
     (case ContainerInspect cli (Container.ID container) of Inl err \<Rightarrow> False | Inr env \<Rightarrow> True)"

definition candidateNode :: "DockerClient \<Rightarrow> Container \<Rightarrow> Node" where
  "candidateNode cli container =
     (let env = (case ContainerInspect cli (Container.ID container) of Inl err \<Rightarrow> [] | Inr e \<Rightarrow> e)
      in \<lparr>Node.ID = Container.ID container,
          Name = containerName container,
          Endpoint = resolveAddr container @ '':9000'',
          AccessKey = envValue (parseEnv Map.empty env) ''MINIO_ACCESS_KEY'',
          SecretKey = envValue (parseEnv Map.empty env) ''MINIO_SECRET_KEY''\<rparr>)"

section \<open>Example inputs\<close>

definition exNetworks :: "string \<Rightarrow> SummaryNetworkSettings option" where
  "exNetworks addr = Some \<lparr>Networks = Some [(''storage-net'', \<lparr>IPAddress = addr\<rparr>)]\<rparr>"

definition exContainer1 :: Container where
  "exContainer1 = \<lparr>Container.ID = ''c1'', Names = [''/amazin-object-storage-node-1''],
                   NetworkSettings = exNetworks ''10.0.0.2''\<rparr>"

definition exContainer2 :: Container where
  "exContainer2 = \<lparr>Container.ID = ''c2'', Names = [''/amazin-object-storage-node-2''],
                   NetworkSettings = exNetworks ''10.0.0.3''\<rparr>"

definition exGateway :: Container where
  "exGateway = \<lparr>Container.ID = ''gw'', Names = [''/gateway-container''],
                 NetworkSettings = exNetworks ''10.0.0.9''\<rparr>"

definition exEnv :: "string list" where
  "exEnv = [''PATH=/usr/bin'', ''MINIO_ACCESS_KEY=ring'', ''MINIO_SECRET_KEY=treepotato'']"

definition exDocker :: DockerClient where
  "exDocker = \<lparr>ContainerList = Inr [exContainer1, exGateway, exContainer2],
                ContainerInspect = (\<lambda>cid. Inr exEnv)\<rparr>"

text \<open>A runtime whose listing query fails, one that lists no container, and one whose
  inspect query fails.\<close>

definition exDockerDown :: DockerClient where
  "exDockerDown = \<lparr>ContainerList = Inl ''Cannot connect to the Docker daemon'',
                    ContainerInspect = (\<lambda>cid. Inr exEnv)\<rparr>"

definition exDockerNone :: DockerClient where
  "exDockerNone = \<lparr>ContainerList = Inr [exGateway], ContainerInspect = (\<lambda>cid. Inr exEnv)\<rparr>"

definition exDockerNoInspect :: DockerClient where
  "exDockerNoInspect = \<lparr>ContainerList = Inr [exContainer1],
                         ContainerInspect = (\<lambda>cid. Inl ''No such container'')\<rparr>"

definition exNode1 :: Node where
  "exNode1 = \<lparr>Node.ID = ''c1'', Name = ''/amazin-object-storage-node-1'',
              Endpoint = ''10.0.0.2:9000'', AccessKey = ''ring'', SecretKey = ''treepotato''\<rparr>"

definition exNode2 :: Node where
  "exNode2 = \<lparr>Node.ID = ''c2'', Name = ''/amazin-object-storage-node-2'',
              Endpoint = ''10.0.0.3:9000'', AccessKey = ''ring'', SecretKey = ''treepotato''\<rparr>"

definition exBackend :: backend where
  "exBackend = \<lparr>buckets = Map.empty, failBucketExists = None, failMakeBucket = None,
                 failPutObject = None, failGetObject = None, failStat = None, failRead = None\<rparr>"

text \<open>A world of empty, reachable backends; one where the second node is unreachable.\<close>

definition exWorld :: world where
  "exWorld = (\<lambda>ep. exBackend)"

definition exWorldDown :: world where
  "exWorldDown =
     exWorld(''10.0.0.3:9000'' := exBackend\<lparr>failBucketExists := Some ''connection refused''\<rparr>)"

definition exMinioNew :: minioNew where
  "exMinioNew = (\<lambda>ep. None)"

definition exPlace :: placement where
  "exPlace = (\<lambda>c key. length key)"

definition exObject :: Object where
  "exObject = \<lparr>Object.ID = ''object-1'', ContentType = ''text/plain'', Content = ''Hello, Minio!''\<rparr>"

definition exStorage :: MinioStorage where
  "exStorage = \<lparr>MinioStorage.client = \<lparr>endpointURL = ''10.0.0.2:9000'', accessKeyID = ''ring'',
                             secretAccessKey = ''treepotato''\<rparr>,
                 endpoint = ''10.0.0.2:9000'', bucketName = ''default''\<rparr>"

text \<open>The router \<open>main\<close> builds, and what \<open>Init\<close> makes of it in the example world.\<close>

definition exFresh :: DistributedStorage where
  "exFresh = NewDistributedStorage (Some exDocker) ''default''"

definition exRouter :: DistributedStorage where
  "exRouter = fst (snd (DistributedStorage_Init exMinioNew exFresh exWorld))"

definition exReady :: world where
  "exReady = snd (snd (DistributedStorage_Init exMinioNew exFresh exWorld))"

text \<open>A backend that holds the example object and whose \<open>Stat\<close> request is made to fail
  with a gateway's error that quotes the server's phrase.\<close>

definition exStaleError :: string where
  "exStaleError = ''502 Bad Gateway: upstream answered: The specified key does not exist. (stale replica)''"

definition exWorldStale :: world where
  "exWorldStale =
     exWorld(''10.0.0.2:9000'' := exBackend
       \<lparr>buckets := [''default'' \<mapsto> [''object-1'' \<mapsto> (''text/plain'', ''Hello, Minio!'')]],
        failStat := Some exStaleError\<rparr>)"

text \<open>The world after the example object was put through the router.\<close>

definition exStored :: world where
  "exStored = snd (DistributedStorage_Put exPlace exRouter exReady (Some exObject))"

text \<open>The router \<open>Init\<close> makes when the runtime lists no storage container.\<close>

definition exEmptyRouter :: DistributedStorage where
  "exEmptyRouter =
     fst (snd (DistributedStorage_Init exMinioNew
                 (NewDistributedStorage (Some exDockerNone) ''default'') exWorld))"

text \<open>The error \<open>Init\<close> returns in the world where the second node is unreachable.\<close>

definition exDownError :: string where
  "exDownError = ''initialize storage for node c2#/amazin-object-storage-node-2#10.0.0.3:9000#ring#XXXXXXXXXX: error init bucket (10.0.0.3:9000): unable to check bucket: connection refused''"

section \<open>Evaluating the examples\<close>

lemma formatNat_9000: "formatNat 9000 = ''9000''"
  by (simp add: formatNat.simps [of 9000] formatNat.simps [of 900] formatNat.simps [of 90]
      formatNat.simps [of 9] digitChar_def)

lemma formatNat_port: "formatNat MinioApiPort = ''9000''"
  by (simp add: MinioApiPort_def formatNat_9000)

declare formatNat_port [code_unfold]

lemma exFresh_nodes: "getAvailableStorageNodes exFresh = Inr [exNode1, exNode2]"
  by code_simp

lemma exFresh_Init: "fst (DistributedStorage_Init exMinioNew exFresh exWorld) = Inr ()"
  by code_simp

lemma exFresh_Init_eq:
  "DistributedStorage_Init exMinioNew exFresh exWorld = (Inr (), exRouter, exReady)"
  using exFresh_Init by (simp add: exRouter_def exReady_def prod_eq_iff)

lemma exRouter_route: "route exPlace exRouter ''object-1'' = Some exStorage"
  by code_simp

lemma exRouter_route_missing: "route exPlace exRouter ''missing-id'' = Some exStorage"
  by code_simp

lemma exObject_ID: "Object.ID exObject = ''object-1''"
  by (simp add: exObject_def)

section \<open>Node.Debug masks the secret key\<close>

lemma maskSecret_replicate: "maskSecret secret = replicate (length secret) (CHR ''X'')"
  by (induction secret) (simp_all add: maskSecret_def Repeat_def)

text \<open>
  C9. The diagnostic text of a node depends on its secret key through the length of the
  key only: the key is replaced by as many \<open>X\<close> as it has bytes, so a node and the same
  node with another secret key of that length have the same \<open>Debug\<close> text.
\<close>

theorem Node_Debug_masks_secret:
  assumes "length secret' = length (Node.SecretKey n)"
  shows "Node_Debug (n\<lparr>Node.SecretKey := secret'\<rparr>) = Node_Debug n \<and>
         Node_Debug n =
           Node.ID n @ ''#'' @ Name n @ ''#'' @ Node.Endpoint n @ ''#'' @ Node.AccessKey n @ ''#'' @
           replicate (length (Node.SecretKey n)) (CHR ''X'')"
  using assms by (simp add: Node_Debug_def maskSecret_replicate)

theorem Node_Debug_masks_secret_witness:
  "length ''swordfish!'' = length (Node.SecretKey exNode1) \<and>
   Node_Debug (exNode1\<lparr>Node.SecretKey := ''swordfish!''\<rparr>) = Node_Debug exNode1 \<and>
   Node_Debug exNode1 = ''c1#/amazin-object-storage-node-1#10.0.0.2:9000#ring#XXXXXXXXXX''"
proof -
  have h: "length ''swordfish!'' = length (Node.SecretKey exNode1)"
    by (simp add: exNode1_def)
  show ?thesis
    using h Node_Debug_masks_secret [OF h] by (simp add: exNode1_def)
qed

section \<open>MinioStorage.Get: not found is decided by the error text\<close>

lemma handleKeyDoesNotExistError_match:
  "Contains err MinioKeyNotExistErrString \<Longrightarrow> handleKeyDoesNotExistError s err pre oid = Inr None"
  by (simp add: handleKeyDoesNotExistError_def keyDoesNotExist_def)

text \<open>
  C10. Whenever the backend client returns an error during \<open>Get\<close>, at the opening of the
  object or at \<open>Stat\<close>, and the text of the error contains
  \<open>"The specified key does not exist."\<close>, \<open>MinioStorage.Get\<close> returns no object and no
  error, whatever the failure was and whether or not the object is stored.
\<close>

theorem MinioStorage_Get_not_found_by_text:
  assumes "Contains err MinioKeyNotExistErrString"
      and "client_GetObject (w (server s)) (MinioStorage.bucketName s) oid = Inl err \<or>
           (\<exists>mObj. client_GetObject (w (server s)) (MinioStorage.bucketName s) oid = Inr mObj \<and>
                    client_Stat (w (server s)) mObj = Inl err)"
  shows "MinioStorage_Get s w oid = Inr None"
  using assms
  by (auto simp: MinioStorage_Get_def handleKeyDoesNotExistError_match)

lemma exStale_Contains: "Contains exStaleError MinioKeyNotExistErrString"
  by code_simp

lemma exStale_open:
  "client_GetObject (exWorldStale (server exStorage)) (MinioStorage.bucketName exStorage) ''object-1''
     = Inr (''default'', ''object-1'')"
  by (simp add: client_GetObject_def exWorldStale_def exStorage_def server_def exBackend_def)

lemma exStale_Stat:
  "client_Stat (exWorldStale (server exStorage)) (''default'', ''object-1'') = Inl exStaleError"
  by (simp add: client_Stat_def exWorldStale_def exStorage_def server_def exBackend_def)

lemma exStale_stored:
  "serverLookup (exWorldStale (server exStorage)) (''default'', ''object-1'')
     = Inr (''text/plain'', ''Hello, Minio!'')"
  by (simp add: serverLookup_def exWorldStale_def exStorage_def server_def exBackend_def)

text \<open>The example: the object is stored on the backend, the \<open>Stat\<close> request fails at a
  gateway, and \<open>Get\<close> reports the object as absent.\<close>

theorem MinioStorage_Get_not_found_by_text_witness:
  "Contains exStaleError MinioKeyNotExistErrString \<and>
   client_Stat (exWorldStale (server exStorage)) (''default'', ''object-1'') = Inl exStaleError \<and>
   serverLookup (exWorldStale (server exStorage)) (''default'', ''object-1'')
     = Inr (''text/plain'', ''Hello, Minio!'') \<and>
   MinioStorage_Get exStorage exWorldStale ''object-1'' = Inr None"
proof -
  have h: "client_GetObject (exWorldStale (server exStorage)) (MinioStorage.bucketName exStorage) ''object-1''
             = Inl exStaleError \<or>
           (\<exists>mObj. client_GetObject (exWorldStale (server exStorage))
                      (MinioStorage.bucketName exStorage) ''object-1'' = Inr mObj \<and>
                    client_Stat (exWorldStale (server exStorage)) mObj = Inl exStaleError)"
    using exStale_open exStale_Stat by blast
  show ?thesis
    using MinioStorage_Get_not_found_by_text [where w = exWorldStale and s = exStorage,
        OF exStale_Contains h]
      exStale_Contains exStale_Stat exStale_stored
    by blast
qed

section \<open>Get: an absent object is an empty result\<close>

lemma MinioStorage_Get_absent:
  assumes "buckets (w (server a)) (MinioStorage.bucketName a) = Some objs"
      and "objs oid = None"
      and "failGetObject (w (server a)) = None" and "failStat (w (server a)) = None"
  shows "MinioStorage_Get a w oid = Inr None"
proof -
  have "Contains MinioKeyNotExistErrString MinioKeyNotExistErrString"
    by (simp add: Contains_def)
  then show ?thesis using assms
    by (simp add: MinioStorage_Get_def client_GetObject_def client_Stat_def serverLookup_def
        handleKeyDoesNotExistError_match)
qed

lemma Get_routed:
  "route place s oid = Some a \<Longrightarrow> MinioStorage_Get a w oid = Inr r \<Longrightarrow>
   DistributedStorage_Get place s w oid = Inr r"
  by (auto simp: route_def DistributedStorage_Get_def split: sum.splits option.splits)

text \<open>
  C2. On a backend that answers, with the adapter's bucket in place and no object under
  the id, \<open>MinioStorage.Get\<close> returns no object and no error; and every router that
  routes the id to this adapter returns the same empty result and no error from its
  \<open>Get\<close>.
\<close>

theorem Get_not_found_is_empty:
  assumes "buckets (w (server a)) (MinioStorage.bucketName a) = Some objs"
      and "objs oid = None"
      and "failGetObject (w (server a)) = None" and "failStat (w (server a)) = None"
  shows "MinioStorage_Get a w oid = Inr None \<and>
         (\<forall>place s. route place s oid = Some a \<longrightarrow> DistributedStorage_Get place s w oid = Inr None)"
  using MinioStorage_Get_absent [where w = w and a = a, OF assms] Get_routed by blast

lemma exReady_bucket:
  "buckets (exReady (server exStorage)) (MinioStorage.bucketName exStorage) \<noteq> None"
  by code_simp

lemma exReady_no_object:
  "the (buckets (exReady (server exStorage)) (MinioStorage.bucketName exStorage)) ''missing-id'' = None"
  by code_simp

lemma exReady_answers:
  "failGetObject (exReady (server exStorage)) = None \<and> failStat (exReady (server exStorage)) = None"
  by code_simp

text \<open>The example: the router of the example world, asked for an id nobody stored.\<close>

theorem Get_not_found_is_empty_witness:
  "buckets (exReady (server exStorage)) (MinioStorage.bucketName exStorage) \<noteq> None \<and>
   the (buckets (exReady (server exStorage)) (MinioStorage.bucketName exStorage)) ''missing-id'' = None \<and>
   failGetObject (exReady (server exStorage)) = None \<and>
   failStat (exReady (server exStorage)) = None \<and>
   route exPlace exRouter ''missing-id'' = Some exStorage \<and>
   MinioStorage_Get exStorage exReady ''missing-id'' = Inr None \<and>
   DistributedStorage_Get exPlace exRouter exReady ''missing-id'' = Inr None"
proof -
  have b: "buckets (exReady (server exStorage)) (MinioStorage.bucketName exStorage)
             = Some (the (buckets (exReady (server exStorage)) (MinioStorage.bucketName exStorage)))"
    using exReady_bucket by simp
  have g: "failGetObject (exReady (server exStorage)) = None"
    and t: "failStat (exReady (server exStorage)) = None"
    using exReady_answers by simp_all
  show ?thesis
    using Get_not_found_is_empty [where w = exReady and a = exStorage, OF b exReady_no_object g t]
      exReady_bucket exReady_no_object g t exRouter_route_missing
    by blast
qed

section \<open>Put: validation of the object\<close>

text \<open>
  C6, as amended. The router's \<open>Put\<close> returns the error \<open>"object is empty"\<close> when the
  object is nil or its id is the empty string, and leaves every backend as it was. (The
  adapter's \<open>Put\<close> makes no such check of its own.)
\<close>

theorem DistributedStorage_Put_validates:
  assumes "object = None \<or> (\<exists>obj. object = Some obj \<and> Object.ID obj = '''')"
  shows "DistributedStorage_Put place s w object = (Inl (Err ''object is empty''), w)"
  using assms by (auto simp: DistributedStorage_Put_def)

theorem DistributedStorage_Put_validates_witness:
  "DistributedStorage_Put exPlace exRouter exReady (Some (exObject\<lparr>Object.ID := ''''\<rparr>))
     = (Inl (Err ''object is empty''), exReady) \<and>
   DistributedStorage_Put exPlace exRouter exReady None = (Inl (Err ''object is empty''), exReady)"
proof -
  have 1: "Some (exObject\<lparr>Object.ID := ''''\<rparr>) = None \<or>
           (\<exists>obj. Some (exObject\<lparr>Object.ID := ''''\<rparr>) = Some obj \<and> Object.ID obj = '''')"
    by simp
  have 2: "(None :: Object option) = None \<or> (\<exists>obj. None = Some obj \<and> Object.ID obj = '''')"
    by simp
  show ?thesis
    using DistributedStorage_Put_validates [OF 1] DistributedStorage_Put_validates [OF 2]
    by blast
qed

text \<open>The claim as stated fails at the adapter: given a nil object, \<open>MinioStorage.Put\<close>
  reads \<open>object.ID\<close> and panics; it returns no error.\<close>

theorem MinioStorage_Put_nil_panics:
  "MinioStorage_Put exStorage exWorld None = (Inl (Panic nilDereference), exWorld)"
  by (simp add: MinioStorage_Put_def)

section \<open>Round trip through the router\<close>

lemma MinioStorage_round_trip:
  assumes "MinioStorage_Put a w (Some obj) = (Inr (), w')" and "answersReads (w' (server a))"
  shows "MinioStorage_Get a w' (Object.ID obj) = Inr (Some obj)"
  using assms
  by (auto simp: MinioStorage_Put_def MinioStorage_Get_def client_PutObject_def client_GetObject_def
      client_Stat_def client_ReadAll_def serverLookup_def answersReads_def
      split: option.splits sum.splits)

lemma Put_routed:
  assumes "DistributedStorage_Put place s w (Some obj) = (Inr (), w')"
  shows "\<exists>a. route place s (Object.ID obj) = Some a \<and> MinioStorage_Put a w (Some obj) = (Inr (), w')"
  using assms
  by (auto simp: DistributedStorage_Put_def route_def
      split: if_splits sum.splits option.splits prod.splits)

text \<open>
  C1. After a \<open>Put\<close> of an object through the router has succeeded, the router routes the
  object's id to an adapter, and if the backend of that adapter answers the reads, \<open>Get\<close>
  of the id on the same router returns the object itself: same id, same content type,
  same content. (A \<open>Put\<close> that succeeds had an object with an id that is not empty.)
\<close>

theorem Put_Get_round_trip:
  assumes "DistributedStorage_Put place s w (Some obj) = (Inr (), w')"
  shows "\<exists>a. route place s (Object.ID obj) = Some a \<and>
             (answersReads (w' (server a)) \<longrightarrow>
                DistributedStorage_Get place s w' (Object.ID obj) = Inr (Some obj))"
  using Put_routed [OF assms] MinioStorage_round_trip Get_routed by blast

lemma exPut_ok: "fst (DistributedStorage_Put exPlace exRouter exReady (Some exObject)) = Inr ()"
  by code_simp

lemma exStored_answers: "answersReads (exStored (server exStorage))"
  by code_simp

text \<open>The example of the spec: \<open>object-1\<close>, \<open>text/plain\<close>, \<open>Hello, Minio!\<close>, through the
  router \<open>Init\<close> built over two storage nodes.\<close>

theorem Put_Get_round_trip_witness:
  "fst (DistributedStorage_Put exPlace exRouter exReady (Some exObject)) = Inr () \<and>
   route exPlace exRouter ''object-1'' = Some exStorage \<and>
   answersReads (exStored (server exStorage)) \<and>
   DistributedStorage_Get exPlace exRouter exStored ''object-1'' = Inr (Some exObject)"
proof -
  have h: "DistributedStorage_Put exPlace exRouter exReady (Some exObject) = (Inr (), exStored)"
    using exPut_ok by (simp add: exStored_def prod_eq_iff)
  from Put_Get_round_trip [OF h] obtain a where
      a: "route exPlace exRouter ''object-1'' = Some a"
      and g: "answersReads (exStored (server a)) \<longrightarrow>
              DistributedStorage_Get exPlace exRouter exStored ''object-1'' = Inr (Some exObject)"
    by (auto simp: exObject_ID)
  from a exRouter_route have "a = exStorage" by simp
  with g exStored_answers exPut_ok exRouter_route show ?thesis by simp
qed

section \<open>Init is all or nothing\<close>

lemma Contains_append: "Contains (p @ x @ q) x"
  by (simp add: Contains_def)

lemma MinioStorage_Init_Err:
  "MinioStorage_Init a w = (Inl f, w') \<Longrightarrow> \<exists>e. f = Err e"
  by (auto simp: MinioStorage_Init_def split: sum.splits if_splits)

text \<open>A node whose adapter cannot be made or initialised gives an error that carries the
  node's \<open>Debug\<close> text.\<close>

lemma initStorageNode_Err:
  assumes "initStorageNode minio_New s w node = (Inl f, w')"
  shows "\<exists>msg. f = Err msg \<and> Contains msg (Node_Debug node)"
proof (cases "NewMinioStorage minio_New
        \<lparr>Endpoint = Node.Endpoint node, AccessKey = Node.AccessKey node,
         SecretKey = Node.SecretKey node, BucketName = bucketName s\<rparr>")
  case (Inl g)
  then obtain e where "g = Err e"
    by (auto simp: NewMinioStorage_def split: option.splits)
  with Inl assms have "f = Err ((''create Minio storage for node '' @ Node_Debug node @ '': '') @ e)"
    by (simp add: initStorageNode_def wrapError_def)
  then have "f = Err (''create Minio storage for node '' @ Node_Debug node @ ('': '' @ e))"
    by simp
  then show ?thesis using Contains_append by blast
next
  case (Inr a)
  with assms obtain g where g: "MinioStorage_Init a w = (Inl g, w')"
      and f: "f = wrapError (''initialize storage for node '' @ Node_Debug node @ '': '') g"
    by (auto simp: initStorageNode_def split: prod.splits sum.splits)
  from MinioStorage_Init_Err [OF g] obtain e where "g = Err e" by blast
  with f have "f = Err (''initialize storage for node '' @ Node_Debug node @ ('': '' @ e))"
    by (simp add: wrapError_def)
  then show ?thesis using Contains_append by blast
qed

lemma initStorageNode_bucketName:
  "bucketName s1 = bucketName s \<Longrightarrow>
   initStorageNode minio_New s1 w node = initStorageNode minio_New s w node"
  by (simp add: initStorageNode_def)

lemma initStoragesLoop_keeps:
  "initStoragesLoop minio_New s w nodes = (r, s', w') \<Longrightarrow>
   circle s' = circle s \<and> bucketName s' = bucketName s \<and> client s' = client s"
proof (induction nodes arbitrary: s w)
  case Nil
  then show ?case by simp
next
  case (Cons node nodes)
  show ?case
  proof (cases "initStorageNode minio_New s w node")
    case (Pair x w1)
    show ?thesis
    proof (cases x)
      case (Inl f)
      with Pair Cons.prems show ?thesis by simp
    next
      case (Inr a)
      with Pair Cons.prems
        Cons.IH [of "s\<lparr>availableStorages := (availableStorages s)(Node_String node \<mapsto> a)\<rparr>" w1]
      show ?thesis by simp
    qed
  qed
qed

lemma initStoragesLoop_fails_at:
  assumes "initStoragesLoop minio_New s w ok = (Inr (), s1, w1)"
      and "initStorageNode minio_New s w1 node = (Inl f, w2)"
  shows "initStoragesLoop minio_New s w (ok @ node # rest) = (Inl f, s1, w2)"
  using assms
proof (induction ok arbitrary: s w)
  case Nil
  then show ?case by simp
next
  case (Cons n ok)
  show ?case
  proof (cases "initStorageNode minio_New s w n")
    case (Pair x wn)
    show ?thesis
    proof (cases x)
      case (Inl g)
      with Pair Cons.prems show ?thesis by simp
    next
      case (Inr a)
      let ?s = "s\<lparr>availableStorages := (availableStorages s)(Node_String n \<mapsto> a)\<rparr>"
      have 1: "initStoragesLoop minio_New ?s wn ok = (Inr (), s1, w1)"
        using Pair Inr Cons.prems(1) by simp
      have 2: "initStorageNode minio_New ?s w1 node = (Inl f, w2)"
        using Cons.prems(2) initStorageNode_bucketName [of ?s s] by simp
      from Cons.IH [OF 1 2] Pair Inr show ?thesis by simp
    qed
  qed
qed

text \<open>
  C3. Let the discovered nodes be \<open>ok @ node # rest\<close>, where the adapters of the nodes
  \<open>ok\<close> are made and initialised, in turn, and the adapter of \<open>node\<close> then fails to be
  made or fails its \<open>Init\<close>. Then \<open>DistributedStorage.Init\<close> returns an error whose text
  contains the \<open>Debug\<close> text of \<open>node\<close>, and the ring of the router is the one it had
  before the call (none, on a new router): the hash ring is not built.
\<close>

theorem Init_all_or_nothing:
  assumes "getAvailableStorageNodes s = Inr (ok @ node # rest)"
      and "initStorages minio_New s w ok = (Inr (), s1, w1)"
      and "initStorageNode minio_New s w1 node = (Inl f, w2)"
  shows "\<exists>msg. DistributedStorage_Init minio_New s w = (Inl (Err msg), s1, w2) \<and>
               Contains msg (Node_Debug node) \<and> circle s1 = circle s"
proof -
  let ?s0 = "s\<lparr>availableStorages := Map.empty\<rparr>"
  have 1: "initStoragesLoop minio_New ?s0 w ok = (Inr (), s1, w1)"
    using assms(2) by (simp add: initStorages_def)
  have 2: "initStorageNode minio_New ?s0 w1 node = (Inl f, w2)"
    using assms(3) initStorageNode_bucketName [of ?s0 s] by simp
  have 3: "initStorages minio_New s w (ok @ node # rest) = (Inl f, s1, w2)"
    using initStoragesLoop_fails_at [OF 1 2] by (simp add: initStorages_def)
  obtain msg where msg: "f = Err msg" "Contains msg (Node_Debug node)"
    using initStorageNode_Err [OF assms(3)] by blast
  have "circle s1 = circle s"
    using initStoragesLoop_keeps [OF 1] by simp
  with 3 msg assms(1) show ?thesis
    by (simp add: DistributedStorage_Init_def)
qed

lemma exDown_first: "fst (initStorages exMinioNew exFresh exWorldDown [exNode1]) = Inr ()"
  by code_simp

lemma exDown_second:
  "fst (initStorageNode exMinioNew exFresh
          (snd (snd (initStorages exMinioNew exFresh exWorldDown [exNode1]))) exNode2)
     = Inl (Err exDownError)"
  by code_simp

lemma exDown_Init: "fst (DistributedStorage_Init exMinioNew exFresh exWorldDown) = Inl (Err exDownError)"
  by code_simp

lemma exDown_Contains: "Contains exDownError (Node_Debug exNode2)"
  by code_simp

text \<open>The example: two storage nodes are discovered, the first is initialised, the
  second refuses the connection.\<close>

theorem Init_all_or_nothing_witness:
  "getAvailableStorageNodes exFresh = Inr [exNode1, exNode2] \<and>
   fst (initStorages exMinioNew exFresh exWorldDown [exNode1]) = Inr () \<and>
   fst (DistributedStorage_Init exMinioNew exFresh exWorldDown) = Inl (Err exDownError) \<and>
   Contains exDownError (Node_Debug exNode2) \<and>
   circle (fst (snd (DistributedStorage_Init exMinioNew exFresh exWorldDown))) = None"
proof -
  let ?i = "initStorages exMinioNew exFresh exWorldDown [exNode1]"
  let ?n = "initStorageNode exMinioNew exFresh (snd (snd ?i)) exNode2"
  have 1: "getAvailableStorageNodes exFresh = Inr ([exNode1] @ exNode2 # [])"
    using exFresh_nodes by simp
  have 2: "?i = (Inr (), fst (snd ?i), snd (snd ?i))"
    using exDown_first by (simp add: prod_eq_iff)
  have 3: "?n = (Inl (Err exDownError), snd ?n)"
    using exDown_second by (simp add: prod_eq_iff)
  from Init_all_or_nothing [OF 1 2 3] obtain msg where
      m: "DistributedStorage_Init exMinioNew exFresh exWorldDown = (Inl (Err msg), fst (snd ?i), snd ?n)"
      and c: "circle (fst (snd ?i)) = circle exFresh"
    by blast
  have "circle exFresh = None"
    by (simp add: exFresh_def NewDistributedStorage_def)
  with m c exFresh_nodes exDown_first exDown_Init exDown_Contains show ?thesis by simp
qed

section \<open>The ring and the registry after Init\<close>

lemma ringTokens_Add: "ringTokens (consistent_Add c n) = insert (Node_String n) (ringTokens c)"
  by (auto simp: ringTokens_def consistent_Add_def)

lemma ringTokens_foldl:
  "ringTokens (foldl consistent_Add c nodes) = ringTokens c \<union> Node_String ` set nodes"
  by (induction nodes arbitrary: c) (auto simp: ringTokens_Add)

lemma initStoragesLoop_dom:
  "initStoragesLoop minio_New s w nodes = (Inr (), s', w') \<Longrightarrow>
   dom (availableStorages s') = dom (availableStorages s) \<union> Node_String ` set nodes"
proof (induction nodes arbitrary: s w)
  case Nil
  then show ?case by simp
next
  case (Cons node nodes)
  show ?case
  proof (cases "initStorageNode minio_New s w node")
    case (Pair x w1)
    show ?thesis
    proof (cases x)
      case (Inl f)
      with Pair Cons.prems show ?thesis by simp
    next
      case (Inr a)
      with Pair Cons.prems
        Cons.IH [of "s\<lparr>availableStorages := (availableStorages s)(Node_String node \<mapsto> a)\<rparr>" w1]
      show ?thesis by auto
    qed
  qed
qed

lemma LocateKey_member:
  "LocateKey place c key = Some m \<Longrightarrow> Node_String m \<in> ringTokens c"
  by (auto simp: LocateKey_def ringTokens_def split: if_splits)

lemma locateToken_ring:
  "locateToken place s key = Inr token \<Longrightarrow> \<exists>c. circle s = Some c \<and> token \<in> ringTokens c"
  by (auto simp: locateToken_def split: option.splits dest: LocateKey_member)

lemma locateToken_Inl:
  "locateToken place s key = Inl f \<Longrightarrow> f = Panic nilDereference"
  by (auto simp: locateToken_def split: option.splits)

lemma Init_ok:
  assumes "DistributedStorage_Init minio_New s w = (Inr (), s', w')"
  shows "\<exists>c. circle s' = Some c \<and> ringTokens c = dom (availableStorages s')"
proof -
  from assms obtain nodes s1 where
      n: "getAvailableStorageNodes s = Inr nodes"
      and i: "initStorages minio_New s w nodes = (Inr (), s1, w')"
      and s': "s' = initHashCircle s1 nodes"
    by (auto simp: DistributedStorage_Init_def split: sum.splits prod.splits)
  from i have "dom (availableStorages s1) = Node_String ` set nodes"
    using initStoragesLoop_dom [of minio_New "s\<lparr>availableStorages := Map.empty\<rparr>" w nodes s1 w']
    by (simp add: initStorages_def)
  moreover have "ringTokens (foldl consistent_Add (consistent_New (length nodes) 0 125) nodes)
      = Node_String ` set nodes"
    by (simp add: ringTokens_foldl) (simp add: ringTokens_def consistent_New_def)
  ultimately show ?thesis
    by (simp add: s' initHashCircle_def)
qed

text \<open>
  C7. After a successful \<open>DistributedStorage.Init\<close> the router has a ring, and the set of
  member tokens on the ring is the set of keys of the adapter registry. Hence every token
  the router locates has an adapter, and neither \<open>Put\<close> nor \<open>Get\<close> ever returns the
  error of the branch "storage node not available", for any placement of keys, any state
  of the backends and any argument.
\<close>

theorem Init_ring_matches_registry:
  assumes "DistributedStorage_Init minio_New s w = (Inr (), s', w')"
  shows "\<exists>c. circle s' = Some c \<and> ringTokens c = dom (availableStorages s') \<and>
           (\<forall>place key token. locateToken place s' key = Inr token \<longrightarrow>
               availableStorages s' token \<noteq> None) \<and>
           (\<forall>place w2 object token.
               fst (DistributedStorage_Put place s' w2 object)
                 \<noteq> Inl (Err (''failed to push data: storage node not available ('' @ token @ '')''))) \<and>
           (\<forall>place w2 oid token.
               DistributedStorage_Get place s' w2 oid
                 \<noteq> Inl (Err (''failed to get data: storage node not available ('' @ token @ '')'')))"
proof -
  obtain c where c: "circle s' = Some c" "ringTokens c = dom (availableStorages s')"
    using Init_ok [OF assms] by blast
  have loc: "\<exists>a. availableStorages s' token = Some a" if "locateToken place s' key = Inr token"
    for place key token
    using locateToken_ring [OF that] c by auto
  have put: "fst (DistributedStorage_Put place s' w2 object)
                 \<noteq> Inl (Err (''failed to push data: storage node not available ('' @ token @ '')''))"
    for place w2 object token
    by (auto simp: DistributedStorage_Put_def wrapError_def
        split: option.splits sum.splits prod.splits failure.splits dest: locateToken_Inl loc)
  have get: "DistributedStorage_Get place s' w2 oid
                 \<noteq> Inl (Err (''failed to get data: storage node not available ('' @ token @ '')''))"
    for place w2 oid token
    by (auto simp: DistributedStorage_Get_def wrapError_def
        split: option.splits sum.splits prod.splits failure.splits dest: locateToken_Inl loc)
  from c loc put get show ?thesis by auto
qed

lemma exRouter_ring:
  "map_option members (circle exRouter) = Some [exNode1, exNode2]"
  by code_simp

lemma exRouter_locate:
  "locateToken exPlace exRouter ''object-1'' = Inr ''c1#/amazin-object-storage-node-1''"
  by code_simp

lemma exRouter_registry:
  "availableStorages exRouter ''c1#/amazin-object-storage-node-1'' = Some exStorage"
  by code_simp

text \<open>The example: the router \<open>Init\<close> builds over the two storage nodes of the example
  runtime.\<close>

theorem Init_ring_matches_registry_witness:
  "fst (DistributedStorage_Init exMinioNew exFresh exWorld) = Inr () \<and>
   map_option members (circle exRouter) = Some [exNode1, exNode2] \<and>
   (\<exists>c. circle exRouter = Some c \<and> ringTokens c = dom (availableStorages exRouter)) \<and>
   locateToken exPlace exRouter ''object-1'' = Inr ''c1#/amazin-object-storage-node-1'' \<and>
   availableStorages exRouter ''c1#/amazin-object-storage-node-1'' = Some exStorage"
  using Init_ring_matches_registry [OF exFresh_Init_eq]
    exFresh_Init exRouter_ring exRouter_locate exRouter_registry
  by blast

section \<open>Node discovery\<close>

lemma storageNode_skip: "\<not> candidate c \<Longrightarrow> storageNode cli c = Inr None"
  unfolding storageNode_def candidate_def by (simp only: de_Morgan_conj not_not) auto

lemma storageNode_candidate:
  assumes "candidate c" and "resolveAddr c \<noteq> ''''"
  shows "storageNode cli c =
     (case ContainerInspect cli (Container.ID c) of
        Inl err \<Rightarrow> Inl (Err (''unable to inspect container '' @ Container.ID c @ '': '' @ err))
      | Inr env \<Rightarrow> Inr (Some (candidateNode cli c)))"
proof -
  from assms(1) have 1: "Container.ID c \<noteq> ''''" "NetworkSettings c \<noteq> None"
      "Contains (containerName c) ContainerNamePattern"
    unfolding candidate_def by blast+
  show ?thesis
  proof (cases "ContainerInspect cli (Container.ID c)")
    case (Inl err)
    with 1 assms(2) show ?thesis
      unfolding storageNode_def by simp
  next
    case (Inr env)
    with 1 assms(2) show ?thesis
      unfolding storageNode_def candidateNode_def formatNat_port MinioAccessKeyEnv_def
        MinioSecretKeyEnv_def
      by simp
  qed
qed

lemma storageNodes_all:
  assumes "\<forall>c\<in>set cs. candidate c \<longrightarrow> resolveAddr c \<noteq> ''''"
      and "\<forall>c\<in>set (filter candidate cs). inspected cli c"
  shows "storageNodes cli acc cs = Inr (acc @ map (candidateNode cli) (filter candidate cs))"
  using assms
proof (induction cs arbitrary: acc)
  case Nil
  then show ?case by simp
next
  case (Cons c cs)
  show ?case
  proof (cases "candidate c")
    case False
    with Cons show ?thesis by (simp add: storageNode_skip)
  next
    case True
    with Cons.prems have "resolveAddr c \<noteq> ''''" and "inspected cli c" by simp_all
    with True have "storageNode cli c = Inr (Some (candidateNode cli c))"
      by (auto simp: storageNode_candidate inspected_def split: sum.splits)
    with True Cons show ?thesis by simp
  qed
qed

lemma storageNodes_inspect_fails:
  assumes "\<forall>c\<in>set cs. candidate c \<longrightarrow> resolveAddr c \<noteq> ''''"
      and "\<not> (\<forall>c\<in>set (filter candidate cs). inspected cli c)"
  shows "\<exists>c err. c \<in> set (filter candidate cs) \<and> ContainerInspect cli (Container.ID c) = Inl err \<and>
           storageNodes cli acc cs =
             Inl (Err (''unable to inspect container '' @ Container.ID c @ '': '' @ err))"
  using assms
proof (induction cs arbitrary: acc)
  case Nil
  then show ?case by simp
next
  case (Cons c cs)
  from Cons.prems(1) have rest_addr: "\<forall>c\<in>set cs. candidate c \<longrightarrow> resolveAddr c \<noteq> ''''"
    by simp
  show ?case
  proof (cases "candidate c")
    case False
    with Cons.prems have "\<not> (\<forall>c\<in>set (filter candidate cs). inspected cli c)" by simp
    from Cons.IH [OF rest_addr this, of acc] False show ?thesis
      by (auto simp: storageNode_skip)
  next
    case True
    with Cons.prems have addr: "resolveAddr c \<noteq> ''''" by simp
    show ?thesis
    proof (cases "ContainerInspect cli (Container.ID c)")
      case (Inl err)
      with True addr have "storageNodes cli acc (c # cs) =
          Inl (Err (''unable to inspect container '' @ Container.ID c @ '': '' @ err))"
        by (simp add: storageNode_candidate)
      with True Inl show ?thesis by auto
    next
      case (Inr env)
      with True have "inspected cli c" by (simp add: inspected_def)
      with Cons.prems True have rest: "\<not> (\<forall>c\<in>set (filter candidate cs). inspected cli c)"
        by simp
      from Cons.IH [OF rest_addr rest, of "acc @ [candidateNode cli c]"] True addr Inr
      show ?thesis by (auto simp: storageNode_candidate)
    qed
  qed
qed

text \<open>
  C8, as amended. A candidate is a listed container with an id and network settings
  whose first name contains the naming pattern. When the listing query fails,
  \<open>getAvailableStorageNodes\<close> returns the error of the query. When it answers, and every
  candidate has an address, then: if the inspect query answers for every candidate, the
  result is exactly the nodes of the candidates, in the order of the listing; otherwise
  the result is the error of the inspect query of a candidate. (What happens for a
  candidate without an address is left out of the statement.)
\<close>

theorem getAvailableStorageNodes_filters:
  assumes "client s = Some cli"
  shows "(\<forall>err. ContainerList cli = Inl err \<longrightarrow>
            getAvailableStorageNodes s = Inl (Err (''unable to list containers: '' @ err))) \<and>
         (\<forall>containers.
            ContainerList cli = Inr containers \<and>
            (\<forall>c\<in>set containers. candidate c \<longrightarrow> resolveAddr c \<noteq> '''') \<longrightarrow>
            (if \<forall>c\<in>set (filter candidate containers). inspected cli c
             then getAvailableStorageNodes s = Inr (map (candidateNode cli) (filter candidate containers))
             else \<exists>c err. c \<in> set (filter candidate containers) \<and>
                    ContainerInspect cli (Container.ID c) = Inl err \<and>
                    getAvailableStorageNodes s =
                      Inl (Err (''unable to inspect container '' @ Container.ID c @ '': '' @ err))))"
proof (intro conjI allI impI)
  fix err assume "ContainerList cli = Inl err"
  with assms show "getAvailableStorageNodes s = Inl (Err (''unable to list containers: '' @ err))"
    by (simp add: getAvailableStorageNodes_def)
next
  fix containers
  assume h: "ContainerList cli = Inr containers \<and>
            (\<forall>c\<in>set containers. candidate c \<longrightarrow> resolveAddr c \<noteq> '''')"
  then have g: "getAvailableStorageNodes s = storageNodes cli [] containers"
    using assms by (simp add: getAvailableStorageNodes_def)
  from h have a: "\<forall>c\<in>set containers. candidate c \<longrightarrow> resolveAddr c \<noteq> ''''" by simp
  show "if \<forall>c\<in>set (filter candidate containers). inspected cli c
        then getAvailableStorageNodes s = Inr (map (candidateNode cli) (filter candidate containers))
        else \<exists>c err. c \<in> set (filter candidate containers) \<and>
               ContainerInspect cli (Container.ID c) = Inl err \<and>
               getAvailableStorageNodes s =
                 Inl (Err (''unable to inspect container '' @ Container.ID c @ '': '' @ err))"
  proof (cases "\<forall>c\<in>set (filter candidate containers). inspected cli c")
    case True
    with storageNodes_all [OF a True, of "[]"] g show ?thesis by simp
  next
    case False
    with storageNodes_inspect_fails [OF a False, of "[]"] g show ?thesis by auto
  qed
qed

lemma exFresh_client: "client exFresh = Some exDocker"
  by (simp add: exFresh_def NewDistributedStorage_def)

lemma exDocker_list: "ContainerList exDocker = Inr [exContainer1, exGateway, exContainer2]"
  by (simp add: exDocker_def)

lemma exDocker_candidates:
  "filter candidate [exContainer1, exGateway, exContainer2] = [exContainer1, exContainer2]"
  by code_simp

lemma exDocker_addressed:
  "\<forall>c\<in>set [exContainer1, exGateway, exContainer2]. candidate c \<longrightarrow> resolveAddr c \<noteq> ''''"
  by code_simp

lemma exDocker_inspected:
  "\<forall>c\<in>set (filter candidate [exContainer1, exGateway, exContainer2]). inspected exDocker c"
  by code_simp

lemma exDocker_nodes:
  "map (candidateNode exDocker) [exContainer1, exContainer2] = [exNode1, exNode2]"
  by code_simp

text \<open>The example: two storage containers and the gateway's own container are listed;
  the two storage nodes are returned.\<close>

theorem getAvailableStorageNodes_filters_witness:
  "client exFresh = Some exDocker \<and>
   ContainerList exDocker = Inr [exContainer1, exGateway, exContainer2] \<and>
   filter candidate [exContainer1, exGateway, exContainer2] = [exContainer1, exContainer2] \<and>
   getAvailableStorageNodes exFresh = Inr [exNode1, exNode2]"
  using getAvailableStorageNodes_filters [OF exFresh_client]
    exFresh_client exDocker_list exDocker_candidates exDocker_addressed exDocker_inspected
    exDocker_nodes
  by simp

text \<open>The claim as stated fails: the listing query answers, the inspect query of the one
  storage container does not, and the operation returns an error.\<close>

theorem getAvailableStorageNodes_inspect_error:
  "ContainerList exDockerNoInspect = Inr [exContainer1] \<and>
   getAvailableStorageNodes (NewDistributedStorage (Some exDockerNoInspect) ''default'')
     = Inl (Err ''unable to inspect container c1: No such container'')"
  by code_simp

section \<open>main after a failed Init\<close>

text \<open>
  C4 fails on the code. In the world where the second storage node refuses the
  connection, \<open>Init\<close> returns an error; \<open>main\<close> drops it and starts the gateway server
  over a router with no ring and with an adapter for the first node only.
\<close>

theorem main_starts_gateway_after_failed_Init:
  "fst (DistributedStorage_Init exMinioNew exFresh exWorldDown) = Inl (Err exDownError) \<and>
   (case main exMinioNew (Inr exDocker) Map.empty exWorldDown of
      Terminated f \<Rightarrow> False
    | GatewayStarted s' w' \<Rightarrow>
        circle s' = None \<and>
        availableStorages s' ''c1#/amazin-object-storage-node-1'' = Some exStorage \<and>
        availableStorages s' ''c2#/amazin-object-storage-node-2'' = None)"
  by code_simp

section \<open>Put and Get on an empty ring\<close>

text \<open>
  C5 fails on the code. When the runtime lists no storage container, \<open>Init\<close> succeeds
  with a ring that has no members; \<open>Put\<close> of an object with an id and \<open>Get\<close> then call
  \<open>String\<close> on the nil member the ring returns and panic: neither returns an error.
\<close>

theorem empty_ring_panics:
  "fst (DistributedStorage_Init exMinioNew
          (NewDistributedStorage (Some exDockerNone) ''default'') exWorld) = Inr () \<and>
   map_option members (circle exEmptyRouter) = Some [] \<and>
   fst (DistributedStorage_Put exPlace exEmptyRouter exWorld (Some exObject))
     = Inl (Panic nilDereference) \<and>
   DistributedStorage_Get exPlace exEmptyRouter exWorld ''object-1'' = Inl (Panic nilDereference)"
  by code_simp

end
